theory Spec2Isabelle
  imports Main
begin

section \<open>The chat list of \<open>src/components/chat/ChatList.tsx\<close>\<close>

text \<open>
  The component \<open>ChatList\<close> runs \<open>fetchChats\<close> once when it is mounted. \<open>fetchChats\<close>
  reads the session, asks the Supabase tables \<open>chat_participants\<close>, \<open>profiles\<close> and
  \<open>messages\<close> four questions per chat, assembles one \<open>ChatPreview\<close> per chat, sorts the
  previews and stores them in the component's state.

  The embedding follows the source line by line. Everything the function touches is one
  record, \<open>world\<close>: the backend (session, the three tables, which requests fail, the log
  of requests issued) and the component (the React state \<open>chats\<close>, \<open>loading\<close>,
  \<open>currentUser\<close>, the toasts shown and the console). Each \<open>await supabase.from(...)\<close> is a
  \<open>request\<close> value, logged by \<open>issue\<close> and answered from the tables. Whether a request
  fails is a function of the request (\<open>failing\<close>): two equal requests get the same
  answer as long as the tables do not change.
\<close>

subsection \<open>Tables\<close>

type_synonym uuid = string

datatype jsval = S string | B bool | T int | Null

text \<open>Rows of \<open>chat_participants\<close>: the columns the source reads and filters on.\<close>

record participant_row =
  participant_chat_id :: uuid
  participant_user_id :: uuid

text \<open>Rows of \<open>profiles\<close>; \<open>username\<close> and \<open>avatar_url\<close> may be NULL.\<close>

record profile_row =
  profile_id :: uuid
  profile_username :: "string option"
  profile_avatar_url :: "string option"

text \<open>
  Rows of \<open>messages\<close>. \<open>created_at\<close> is the instant the ISO string of the column
  denotes, in milliseconds since the epoch (what \<open>new Date(created_at)\<close> holds).
\<close>

record message_row =
  message_chat_id :: uuid
  message_sender_id :: uuid
  message_content :: "string option"
  message_created_at :: int
  message_read :: bool

definition participant_col :: "participant_row \<Rightarrow> string \<Rightarrow> jsval option" where
  "participant_col r c =
     (if c = ''chat_id'' then Some (S (participant_chat_id r))
      else if c = ''user_id'' then Some (S (participant_user_id r))
      else None)"

definition profile_col :: "profile_row \<Rightarrow> string \<Rightarrow> jsval option" where
  "profile_col r c =
     (if c = ''id'' then Some (S (profile_id r))
      else if c = ''username'' then Some (case profile_username r of None \<Rightarrow> Null | Some n \<Rightarrow> S n)
      else if c = ''avatar_url'' then Some (case profile_avatar_url r of None \<Rightarrow> Null | Some a \<Rightarrow> S a)
      else None)"

definition message_col :: "message_row \<Rightarrow> string \<Rightarrow> jsval option" where
  "message_col r c =
     (if c = ''chat_id'' then Some (S (message_chat_id r))
      else if c = ''sender_id'' then Some (S (message_sender_id r))
      else if c = ''content'' then Some (case message_content r of None \<Rightarrow> Null | Some t \<Rightarrow> S t)
      else if c = ''created_at'' then Some (T (message_created_at r))
      else if c = ''read'' then Some (B (message_read r))
      else None)"

subsection \<open>Requests and responses of the Supabase client\<close>

text \<open>
  A query built with \<open>supabase.from(table).select(...)\<close> and its modifiers is one HTTP
  request to PostgREST: \<open>select\<close> is a GET (a HEAD with \<open>head: true\<close>), \<open>insert\<close> and
  \<open>upsert\<close> are POST, \<open>update\<close> is PATCH, \<open>delete\<close> is DELETE. \<open>object\<close> is the
  \<open>.single()\<close> modifier, \<open>count_exact\<close> the option \<open>count: 'exact'\<close>.
\<close>

datatype http_method = GET | HEAD | POST | PATCH | DELETE

datatype filter = Eq string jsval | Neq string jsval

record request =
  req_method :: http_method
  table :: string
  columns :: string
  filters :: "filter list"
  order :: "(string \<times> bool) option"
  limit :: "nat option"
  object :: bool
  count_exact :: bool

definition select :: "string \<Rightarrow> string \<Rightarrow> request" where
  "select t cols =
     \<lparr>req_method = GET, table = t, columns = cols, filters = [], order = None, limit = None,
      object = False, count_exact = False\<rparr>"

definition select_head_count :: "string \<Rightarrow> string \<Rightarrow> request" where
  "select_head_count t cols = (select t cols)\<lparr>req_method := HEAD, count_exact := True\<rparr>"

definition eq :: "string \<Rightarrow> jsval \<Rightarrow> request \<Rightarrow> request" where
  "eq c v q = q\<lparr>filters := filters q @ [Eq c v]\<rparr>"

definition neq :: "string \<Rightarrow> jsval \<Rightarrow> request \<Rightarrow> request" where
  "neq c v q = q\<lparr>filters := filters q @ [Neq c v]\<rparr>"

definition order_by :: "string \<Rightarrow> bool \<Rightarrow> request \<Rightarrow> request" where
  "order_by c ascending q = q\<lparr>order := Some (c, ascending)\<rparr>"

definition limit_to :: "nat \<Rightarrow> request \<Rightarrow> request" where
  "limit_to n q = q\<lparr>limit := Some n\<rparr>"

definition single :: "request \<Rightarrow> request" where
  "single q = q\<lparr>object := True\<rparr>"

text \<open>
  The client never throws on a failed request: the promise resolves to
  \<open>{data, error, count}\<close> with \<open>error\<close> set and \<open>data\<close> null. \<open>FetchError\<close> stands for
  every failure of the request as a whole (network, permission, server); \<open>PGRST116\<close> is
  PostgREST's answer to \<open>.single()\<close> when the result is not exactly one row.
\<close>

datatype pg_error = FetchError | PGRST116

record 'a response =
  data :: "'a option"
  error :: "pg_error option"
  count :: "int option"

subsection \<open>The component and its environment\<close>

datatype user = User (uid: uuid)

datatype session = Session (user: user)

record ChatPreview =
  id' :: string
  username :: string
  avatar_url :: "string option"
  last_message :: string
  last_time :: string
  unread :: int

datatype thrown = Thrown_error pg_error | TypeError

record world =
  auth_session :: "session option"
  chat_participants :: "participant_row list"
  profiles :: "profile_row list"
  messages :: "message_row list"
  failing :: "request \<Rightarrow> bool"
  requests :: "request list"
  chats :: "ChatPreview list"
  loading :: bool
  currentUser :: "user option"
  toasts :: "string list"
  console :: "thrown list"

text \<open>
  What the JavaScript engine supplies: \<open>toLocaleTimeString\<close> renders an instant as the
  clock time of the user's locale and time zone (hour and minute only, as the source
  asks), and \<open>getTime\<close> is \<open>new Date(s).getTime()\<close> on a string, \<open>None\<close> for NaN
  (the string is not a date the engine can parse).
\<close>

record runtime =
  toLocaleTimeString :: "int \<Rightarrow> string"
  getTime :: "string \<Rightarrow> int option"

subsection \<open>Answering a request\<close>

fun holds :: "(string \<Rightarrow> jsval option) \<Rightarrow> filter \<Rightarrow> bool" where
  "holds col (Eq c v) = (col c = Some v)"
| "holds col (Neq c v) = (case col c of None \<Rightarrow> False | Some x \<Rightarrow> x \<noteq> Null \<and> x \<noteq> v)"

definition order_key :: "('r \<Rightarrow> string \<Rightarrow> jsval option) \<Rightarrow> string \<Rightarrow> 'r \<Rightarrow> int" where
  "order_key col c r = (case col r c of Some (T n) \<Rightarrow> n | _ \<Rightarrow> 0)"

definition order_rows :: "('r \<Rightarrow> string \<Rightarrow> jsval option) \<Rightarrow> (string \<times> bool) option \<Rightarrow> 'r list \<Rightarrow> 'r list" where
  "order_rows col ord rows =
     (case ord of
        None \<Rightarrow> rows
      | Some (c, ascending) \<Rightarrow>
          if ascending then sort_key (order_key col c) rows
          else sort_key (\<lambda>r. - order_key col c r) rows)"

definition limit_rows :: "nat option \<Rightarrow> 'r list \<Rightarrow> 'r list" where
  "limit_rows l rows = (case l of None \<Rightarrow> rows | Some n \<Rightarrow> take n rows)"

text \<open>The rows a request selects: filtered, then ordered, then limited.\<close>

definition rows_of :: "('r \<Rightarrow> string \<Rightarrow> jsval option) \<Rightarrow> 'r list \<Rightarrow> request \<Rightarrow> 'r list" where
  "rows_of col rows q =
     limit_rows (limit q)
       (order_rows col (order q) (filter (\<lambda>r. list_all (holds (col r)) (filters q)) rows))"

definition failed :: "'a response" where
  "failed = \<lparr>data = None, error = Some FetchError, count = None\<rparr>"

text \<open>A request for a list of rows (no \<open>.single()\<close>).\<close>

definition answer_rows ::
  "('r \<Rightarrow> string \<Rightarrow> jsval option) \<Rightarrow> 'r list \<Rightarrow> bool \<Rightarrow> request \<Rightarrow> 'r list response" where
  "answer_rows col rows fails q =
     (if fails then failed
      else \<lparr>data = Some (rows_of col rows q), error = None, count = None\<rparr>)"

text \<open>A request with \<open>.single()\<close>: exactly one row, or the error \<open>PGRST116\<close>.\<close>

definition answer_single ::
  "('r \<Rightarrow> string \<Rightarrow> jsval option) \<Rightarrow> 'r list \<Rightarrow> bool \<Rightarrow> request \<Rightarrow> 'r response" where
  "answer_single col rows fails q =
     (if fails then failed
      else case rows_of col rows q of
             [r] \<Rightarrow> \<lparr>data = Some r, error = None, count = None\<rparr>
           | _ \<Rightarrow> \<lparr>data = None, error = Some PGRST116, count = None\<rparr>)"

text \<open>A HEAD request with \<open>count: 'exact'\<close>: no rows, only their number.\<close>

definition answer_count ::
  "('r \<Rightarrow> string \<Rightarrow> jsval option) \<Rightarrow> 'r list \<Rightarrow> bool \<Rightarrow> request \<Rightarrow> unit response" where
  "answer_count col rows fails q =
     (if fails then failed
      else \<lparr>data = None, error = None, count = Some (int (length (rows_of col rows q)))\<rparr>)"

definition issue :: "request \<Rightarrow> world \<Rightarrow> world" where
  "issue q w = w\<lparr>requests := requests w @ [q]\<rparr>"

subsection \<open>\<open>Array.prototype.sort\<close>\<close>

text \<open>
  A comparator returns a JavaScript number, \<open>None\<close> for NaN; the engine reads NaN as
  \<open>+0\<close> (the step \<open>SortCompare\<close> of ECMAScript). The sort is stable. It is modelled as
  an insertion sort that calls the comparator with the element that stands later in the
  array first, as V8 and JavaScriptCore do. Engines agree whenever the comparator is
  consistent; the comparator of \<open>fetchChats\<close> is not (it answers 1 for two previews
  without a time in either order), and for it ECMAScript leaves the order to the engine.
\<close>

definition SortCompare :: "('a \<Rightarrow> 'a \<Rightarrow> int option) \<Rightarrow> 'a \<Rightarrow> 'a \<Rightarrow> int" where
  "SortCompare comparefn x y = (case comparefn x y of None \<Rightarrow> 0 | Some v \<Rightarrow> v)"

fun sort_insert :: "('a \<Rightarrow> 'a \<Rightarrow> int option) \<Rightarrow> 'a \<Rightarrow> 'a list \<Rightarrow> 'a list" where
  "sort_insert comparefn x [] = [x]"
| "sort_insert comparefn x (y # ys) =
     (if SortCompare comparefn y x < 0 then y # sort_insert comparefn x ys else x # y # ys)"

fun array_sort :: "('a \<Rightarrow> 'a \<Rightarrow> int option) \<Rightarrow> 'a list \<Rightarrow> 'a list" where
  "array_sort comparefn [] = []"
| "array_sort comparefn (x # xs) = sort_insert comparefn x (array_sort comparefn xs)"

subsection \<open>\<open>fetchChats\<close>\<close>

text \<open>The comparator of lines 103 to 107; the empty string is the only falsy \<open>last_time\<close>.\<close>

definition compare_previews :: "runtime \<Rightarrow> ChatPreview \<Rightarrow> ChatPreview \<Rightarrow> int option" where
  "compare_previews rt a b =
     (if last_time a = [] then Some 1
      else if last_time b = [] then Some (- 1)
      else case (getTime rt (last_time b), getTime rt (last_time a)) of
             (Some tb, Some ta) \<Rightarrow> Some (tb - ta)
           | _ \<Rightarrow> None)"

text \<open>\<open>v || d\<close> on a nullable string: null and the empty string are falsy.\<close>

definition or_else :: "string option \<Rightarrow> string \<Rightarrow> string" where
  "or_else v d = (case v of None \<Rightarrow> d | Some s \<Rightarrow> if s = [] then d else s)"

text \<open>The placeholder name of line 92, its accented letter as two bytes of UTF-8.\<close>

definition placeholder :: string where
  "placeholder = ''Usu'' @ [CHR 0xC3, CHR 0xA1] @ ''rio''"

text \<open>The text of the toast of line 112, in UTF-8.\<close>

definition toast_text :: string where
  "toast_text =
     ''N'' @ [CHR 0xC3, CHR 0xA3] @ ''o foi poss'' @ [CHR 0xC3, CHR 0xAD]
       @ ''vel carregar suas conversas''"

text \<open>The five queries, as the source builds them.\<close>

definition participations_query :: "uuid \<Rightarrow> request" where
  "participations_query u = eq ''user_id'' (S u) (select ''chat_participants'' ''chat_id'')"

definition other_participant_query :: "uuid \<Rightarrow> uuid \<Rightarrow> request" where
  "other_participant_query chatId u =
     single (neq ''user_id'' (S u) (eq ''chat_id'' (S chatId)
       (select ''chat_participants'' ''user_id'')))"

definition profile_query :: "uuid \<Rightarrow> request" where
  "profile_query other =
     single (eq ''id'' (S other) (select ''profiles'' ''username, avatar_url''))"

definition last_message_query :: "uuid \<Rightarrow> request" where
  "last_message_query chatId =
     single (limit_to 1 (order_by ''created_at'' False (eq ''chat_id'' (S chatId)
       (select ''messages'' ''content, created_at, read''))))"

definition unread_query :: "uuid \<Rightarrow> uuid \<Rightarrow> request" where
  "unread_query chatId u =
     neq ''sender_id'' (S u) (eq ''read'' (B False) (eq ''chat_id'' (S chatId)
       (select_head_count ''messages'' ''*'')))"

text \<open>
  One turn of the loop of lines 53 to 100: \<open>Continue\<close> is the \<open>continue\<close> of lines 62
  and 71, \<open>Push\<close> the \<open>chatPreviews.push(preview)\<close> of line 99, \<open>Throw\<close> the TypeError
  of reading a property of null (a response with neither data nor error).
\<close>

datatype outcome = Continue | Push ChatPreview | Throw thrown

definition loop_body :: "runtime \<Rightarrow> user \<Rightarrow> uuid \<Rightarrow> world \<Rightarrow> outcome \<times> world" where
  "loop_body rt u chatId w0 =
     (let q1 = other_participant_query chatId (uid u);
          r1 = answer_single participant_col (chat_participants w0) (failing w0 q1) q1;
          w1 = issue q1 w0
      in if error r1 \<noteq> None then (Continue, w1)
         else case data r1 of
           None \<Rightarrow> (Throw TypeError, w1)
         | Some otherParticipant \<Rightarrow>
             let q2 = profile_query (participant_user_id otherParticipant);
                 r2 = answer_single profile_col (profiles w1) (failing w1 q2) q2;
                 w2 = issue q2 w1
             in if error r2 \<noteq> None then (Continue, w2)
                else (case data r2 of
                  None \<Rightarrow> (Throw TypeError, w2)
                | Some userData \<Rightarrow>
                    let q3 = last_message_query chatId;
                        lastMessage = data (answer_single message_col (messages w2) (failing w2 q3) q3);
                        w3 = issue q3 w2;
                        q4 = unread_query chatId (uid u);
                        unreadCount = count (answer_count message_col (messages w3) (failing w3 q4) q4);
                        w4 = issue q4 w3;
                        preview =
                          \<lparr>id' = participant_user_id otherParticipant,
                           username = or_else (profile_username userData) placeholder,
                           avatar_url = profile_avatar_url userData,
                           last_message =
                             (case lastMessage of None \<Rightarrow> []
                              | Some m \<Rightarrow> or_else (message_content m) []),
                           last_time =
                             (case lastMessage of None \<Rightarrow> []
                              | Some m \<Rightarrow> toLocaleTimeString rt (message_created_at m)),
                           unread =
                             (case unreadCount of None \<Rightarrow> 0
                              | Some n \<Rightarrow> if n = 0 then 0 else n)\<rparr>
                    in (Push preview, w4)))"

text \<open>The loop \<open>for (const chatId of chatIds)\<close>; \<open>acc\<close> is \<open>chatPreviews\<close>.\<close>

fun for_chatIds ::
  "runtime \<Rightarrow> user \<Rightarrow> uuid list \<Rightarrow> ChatPreview list \<Rightarrow> world \<Rightarrow> (thrown + ChatPreview list) \<times> world" where
  "for_chatIds rt u [] acc w = (Inr acc, w)"
| "for_chatIds rt u (chatId # rest) acc w =
     (case loop_body rt u chatId w of
        (Continue, w') \<Rightarrow> for_chatIds rt u rest acc w'
      | (Push preview, w') \<Rightarrow> for_chatIds rt u rest (acc @ [preview]) w'
      | (Throw e, w') \<Rightarrow> (Inl e, w'))"

text \<open>
  The \<open>try\<close> block, lines 24 to 109. The first component is what it throws, \<open>None\<close>
  when it ends normally (the two early \<open>return\<close>s included).
\<close>

definition try_block :: "runtime \<Rightarrow> world \<Rightarrow> thrown option \<times> world" where
  "try_block rt w0 =
     (case auth_session w0 of
        None \<Rightarrow> (None, w0\<lparr>chats := [], loading := False\<rparr>)
      | Some session \<Rightarrow>
          let w1 = w0\<lparr>currentUser := Some (user session)\<rparr>;
              q = participations_query (uid (user session));
              r = answer_rows participant_col (chat_participants w1) (failing w1 q) q;
              w2 = issue q w1
          in (case error r of
               Some participationsError \<Rightarrow> (Some (Thrown_error participationsError), w2)
             | None \<Rightarrow>
                 (case data r of
                    None \<Rightarrow> (None, w2\<lparr>chats := [], loading := False\<rparr>)
                  | Some participations \<Rightarrow>
                      if length participations = 0
                      then (None, w2\<lparr>chats := [], loading := False\<rparr>)
                      else
                        let chatIds = map participant_chat_id participations
                        in (case for_chatIds rt (user session) chatIds [] w2 of
                              (Inl e, w3) \<Rightarrow> (Some e, w3)
                            | (Inr chatPreviews, w3) \<Rightarrow>
                                (None, w3\<lparr>chats := array_sort (compare_previews rt) chatPreviews\<rparr>)))))"

text \<open>\<open>catch\<close> (lines 110 to 112) and \<open>finally\<close> (lines 113 to 115).\<close>

definition catch_block :: "thrown \<Rightarrow> world \<Rightarrow> world" where
  "catch_block e w = w\<lparr>console := console w @ [e], toasts := toasts w @ [toast_text]\<rparr>"

definition fetchChats :: "runtime \<Rightarrow> world \<Rightarrow> world" where
  "fetchChats rt w =
     (case try_block rt w of
        (None, w') \<Rightarrow> w'\<lparr>loading := False\<rparr>
      | (Some e, w') \<Rightarrow> (catch_block e w')\<lparr>loading := False\<rparr>)"

text \<open>
  The state in which the component is mounted (the initial values of \<open>useState\<close>, lines
  17 to 19), over a backend with the given session, tables and failing requests.
\<close>

definition mounted ::
  "session option \<Rightarrow> participant_row list \<Rightarrow> profile_row list \<Rightarrow> message_row list
     \<Rightarrow> (request \<Rightarrow> bool) \<Rightarrow> world" where
  "mounted s ps prs ms f =
     \<lparr>auth_session = s, chat_participants = ps, profiles = prs, messages = ms, failing = f,
      requests = [], chats = [], loading = True, currentUser = None, toasts = [],
      console = []\<rparr>"

subsection \<open>Vocabulary of the properties\<close>

text \<open>A request that only reads: the GET and HEAD that \<open>select\<close> produces.\<close>

definition is_read :: "request \<Rightarrow> bool" where
  "is_read q = (req_method q = GET \<or> req_method q = HEAD)"

text \<open>The rows of the tables that the five queries select, written as plain filters.\<close>

definition memberships :: "world \<Rightarrow> uuid \<Rightarrow> participant_row list" where
  "memberships w u = filter (\<lambda>r. participant_user_id r = u) (chat_participants w)"

definition others :: "world \<Rightarrow> uuid \<Rightarrow> uuid \<Rightarrow> participant_row list" where
  "others w u chatId =
     filter (\<lambda>r. participant_chat_id r = chatId \<and> participant_user_id r \<noteq> u)
       (chat_participants w)"

definition profiles_of :: "world \<Rightarrow> uuid \<Rightarrow> profile_row list" where
  "profiles_of w other = filter (\<lambda>r. profile_id r = other) (profiles w)"

definition messages_of :: "world \<Rightarrow> uuid \<Rightarrow> message_row list" where
  "messages_of w chatId = filter (\<lambda>m. message_chat_id m = chatId) (messages w)"

definition unread_from_others :: "world \<Rightarrow> uuid \<Rightarrow> uuid \<Rightarrow> message_row list" where
  "unread_from_others w u chatId =
     filter (\<lambda>m. message_chat_id m = chatId \<and> message_read m = False \<and> message_sender_id m \<noteq> u)
       (messages w)"

text \<open>
  The lookup of the counterpart or of its profile fails for a chat: the request for the
  other participant fails or does not find exactly one row, or the request for that
  participant's profile fails or does not find exactly one row.
\<close>

definition lookup_fails :: "world \<Rightarrow> uuid \<Rightarrow> uuid \<Rightarrow> bool" where
  "lookup_fails w u chatId =
     (if failing w (other_participant_query chatId u) then True
      else case others w u chatId of
             [r] \<Rightarrow>
               (if failing w (profile_query (participant_user_id r)) then True
                else length (profiles_of w (participant_user_id r)) \<noteq> 1)
           | _ \<Rightarrow> True)"

text \<open>What one chat contributes to \<open>chatPreviews\<close>, and what a list of chats does.\<close>

definition pushed :: "runtime \<Rightarrow> user \<Rightarrow> world \<Rightarrow> uuid \<Rightarrow> ChatPreview list" where
  "pushed rt u w chatId = (case fst (loop_body rt u chatId w) of Push p \<Rightarrow> [p] | _ \<Rightarrow> [])"

definition assembled :: "runtime \<Rightarrow> user \<Rightarrow> world \<Rightarrow> uuid list \<Rightarrow> ChatPreview list" where
  "assembled rt u w chatIds = concat (map (pushed rt u w) chatIds)"

subsection \<open>A concrete engine and backend\<close>

text \<open>
  An engine whose locale writes the time of day as \<open>HH:MM\<close> in UTC. A time of day alone
  is not a date string, so \<open>new Date('10:00')\<close> is an Invalid Date and its \<open>getTime()\<close>
  is NaN.
\<close>

definition two_digits :: "nat \<Rightarrow> string" where
  "two_digits n = [''0123456789'' ! (n div 10), ''0123456789'' ! (n mod 10)]"

definition clock_utc :: "int \<Rightarrow> string" where
  "clock_utc ms =
     (let m = nat ((ms div 60000) mod 1440)
      in two_digits (m div 60) @ '':'' @ two_digits (m mod 60))"

definition browser :: runtime where
  "browser = \<lparr>toLocaleTimeString = clock_utc, getTime = (\<lambda>s. None)\<rparr>"

text \<open>
  Alice is in four chats: \<open>c1\<close> with Bob (last message on the first day at 10:00),
  \<open>c2\<close> with Carol (last message one day later at 10:00), \<open>c3\<close> with Dave and Erin (three
  participants), \<open>c4\<close> with Frank, who has no display name and has sent nothing.
\<close>

definition ex_participants :: "participant_row list" where
  "ex_participants =
     [\<lparr>participant_chat_id = ''c1'', participant_user_id = ''alice''\<rparr>,
      \<lparr>participant_chat_id = ''c1'', participant_user_id = ''bob''\<rparr>,
      \<lparr>participant_chat_id = ''c2'', participant_user_id = ''alice''\<rparr>,
      \<lparr>participant_chat_id = ''c2'', participant_user_id = ''carol''\<rparr>,
      \<lparr>participant_chat_id = ''c3'', participant_user_id = ''alice''\<rparr>,
      \<lparr>participant_chat_id = ''c3'', participant_user_id = ''dave''\<rparr>,
      \<lparr>participant_chat_id = ''c3'', participant_user_id = ''erin''\<rparr>,
      \<lparr>participant_chat_id = ''c4'', participant_user_id = ''alice''\<rparr>,
      \<lparr>participant_chat_id = ''c4'', participant_user_id = ''frank''\<rparr>]"

definition ex_profiles :: "profile_row list" where
  "ex_profiles =
     [\<lparr>profile_id = ''bob'', profile_username = Some ''Bob'', profile_avatar_url = None\<rparr>,
      \<lparr>profile_id = ''carol'', profile_username = Some ''Carol'', profile_avatar_url = None\<rparr>,
      \<lparr>profile_id = ''dave'', profile_username = Some ''Dave'', profile_avatar_url = None\<rparr>,
      \<lparr>profile_id = ''erin'', profile_username = Some ''Erin'', profile_avatar_url = None\<rparr>,
      \<lparr>profile_id = ''frank'', profile_username = None, profile_avatar_url = None\<rparr>]"

definition ex_messages :: "message_row list" where
  "ex_messages =
     [\<lparr>message_chat_id = ''c1'', message_sender_id = ''alice'', message_content = Some ''hello'',
       message_created_at = 32400000, message_read = False\<rparr>,
      \<lparr>message_chat_id = ''c1'', message_sender_id = ''bob'', message_content = Some ''hi'',
       message_created_at = 36000000, message_read = False\<rparr>,
      \<lparr>message_chat_id = ''c2'', message_sender_id = ''carol'', message_content = Some ''yo'',
       message_created_at = 122340000, message_read = False\<rparr>,
      \<lparr>message_chat_id = ''c2'', message_sender_id = ''carol'', message_content = Some ''there?'',
       message_created_at = 122400000, message_read = False\<rparr>,
      \<lparr>message_chat_id = ''c3'', message_sender_id = ''dave'', message_content = Some ''all'',
       message_created_at = 40000000, message_read = True\<rparr>]"

definition alice :: session where
  "alice = Session (User ''alice'')"

definition ex_world :: world where
  "ex_world = mounted (Some alice) ex_participants ex_profiles ex_messages (\<lambda>q. False)"

text \<open>The same backend seen without a session, and with the membership request failing.\<close>

definition ex_signed_out :: world where
  "ex_signed_out = mounted None ex_participants ex_profiles ex_messages (\<lambda>q. False)"

definition ex_offline :: world where
  "ex_offline =
     mounted (Some alice) ex_participants ex_profiles ex_messages
       (\<lambda>q. table q = ''chat_participants'')"

section \<open>Properties\<close>

subsection \<open>What the queries select, and what the loop does\<close>

text \<open>
  Each query, run by \<open>rows_of\<close> through its filter list, selects the rows named in the
  vocabulary above. The loop throws nothing, changes nothing but the log of requests,
  and its result depends on the tables and the failing requests only.
\<close>

lemma rows_participations:
  "rows_of participant_col ps (participations_query u) = filter (\<lambda>r. participant_user_id r = u) ps"
  by (simp add: rows_of_def participations_query_def eq_def select_def limit_rows_def
      order_rows_def participant_col_def)

lemma rows_other_participant:
  "rows_of participant_col ps (other_participant_query c u) =
     filter (\<lambda>r. participant_chat_id r = c \<and> participant_user_id r \<noteq> u) ps"
  by (simp add: rows_of_def other_participant_query_def eq_def neq_def single_def select_def
      limit_rows_def order_rows_def participant_col_def)

lemma rows_profile:
  "rows_of profile_col prs (profile_query other) = filter (\<lambda>r. profile_id r = other) prs"
  by (simp add: rows_of_def profile_query_def eq_def single_def select_def
      limit_rows_def order_rows_def profile_col_def)

lemma rows_unread:
  "rows_of message_col ms (unread_query c u) =
     filter (\<lambda>m. message_chat_id m = c \<and> message_read m = False \<and> message_sender_id m \<noteq> u) ms"
  by (simp add: rows_of_def unread_query_def eq_def neq_def select_head_count_def select_def
      limit_rows_def order_rows_def message_col_def)

lemma rows_last_message:
  "rows_of message_col ms (last_message_query c) =
     take 1 (sort_key (\<lambda>m. - message_created_at m) (filter (\<lambda>m. message_chat_id m = c) ms))"
  by (simp add: rows_of_def last_message_query_def eq_def single_def limit_to_def order_by_def
      select_def limit_rows_def order_rows_def order_key_def message_col_def)

lemma is_read_queries:
  "is_read (participations_query u)" "is_read (other_participant_query c u)"
  "is_read (profile_query other)" "is_read (last_message_query c)" "is_read (unread_query c u)"
  by (simp_all add: is_read_def participations_query_def other_participant_query_def
      profile_query_def last_message_query_def unread_query_def eq_def neq_def single_def
      limit_to_def order_by_def select_def select_head_count_def)

lemma loop_body_snd:
  "\<exists>qs. snd (loop_body rt u c w) = w\<lparr>requests := requests w @ qs\<rparr> \<and> list_all is_read qs"
  unfolding loop_body_def Let_def
  by (auto simp: issue_def is_read_queries split: option.splits)

lemma loop_body_backend:
  assumes "chat_participants w' = chat_participants w" "profiles w' = profiles w"
    "messages w' = messages w" "failing w' = failing w"
  shows "fst (loop_body rt u c w') = fst (loop_body rt u c w)"
  using assms by (simp add: loop_body_def Let_def issue_def split: option.splits)

lemma loop_body_no_throw: "fst (loop_body rt u c w) \<noteq> Throw e"
  unfolding loop_body_def Let_def
  by (auto simp: answer_single_def failed_def split: option.splits list.splits)

lemma pushed_backend:
  assumes "chat_participants w' = chat_participants w" "profiles w' = profiles w"
    "messages w' = messages w" "failing w' = failing w"
  shows "pushed rt u w' c = pushed rt u w c"
  by (simp add: pushed_def loop_body_backend [OF assms])

lemma assembled_backend:
  assumes "chat_participants w' = chat_participants w" "profiles w' = profiles w"
    "messages w' = messages w" "failing w' = failing w"
  shows "assembled rt u w' cs = assembled rt u w cs"
proof -
  have "pushed rt u w' = pushed rt u w"
    by (rule ext) (rule pushed_backend [OF assms])
  then show ?thesis by (simp add: assembled_def)
qed

lemma for_chatIds_result:
  "\<exists>qs. for_chatIds rt u cs acc w =
          (Inr (acc @ assembled rt u w cs), w\<lparr>requests := requests w @ qs\<rparr>)
        \<and> list_all is_read qs"
proof (induction cs arbitrary: acc w)
  case Nil
  have "for_chatIds rt u [] acc w = (Inr (acc @ assembled rt u w []), w\<lparr>requests := requests w @ []\<rparr>)"
    by (simp add: assembled_def)
  moreover have "list_all is_read []" by simp
  ultimately show ?case by blast
next
  case (Cons c cs)
  obtain qs1 where s1: "snd (loop_body rt u c w) = w\<lparr>requests := requests w @ qs1\<rparr>"
    and r1: "list_all is_read qs1"
    using loop_body_snd by blast
  let ?w = "w\<lparr>requests := requests w @ qs1\<rparr>"
  have same: "assembled rt u ?w cs = assembled rt u w cs"
    by (rule assembled_backend) simp_all
  have split: "assembled rt u w (c # cs) = pushed rt u w c @ assembled rt u w cs"
    by (simp add: assembled_def)
  show ?case
  proof (cases "fst (loop_body rt u c w)")
    case Continue
    then have lb: "loop_body rt u c w = (Continue, ?w)"
      using s1 by (metis prod.collapse)
    obtain qs2 where
      "for_chatIds rt u cs acc ?w = (Inr (acc @ assembled rt u ?w cs), ?w\<lparr>requests := requests ?w @ qs2\<rparr>)"
      and r2: "list_all is_read qs2"
      using Cons.IH by blast
    then have "for_chatIds rt u (c # cs) acc w =
        (Inr (acc @ assembled rt u w (c # cs)), w\<lparr>requests := requests w @ (qs1 @ qs2)\<rparr>)"
      using lb same split Continue by (simp add: pushed_def)
    moreover have "list_all is_read (qs1 @ qs2)"
      using r1 r2 by simp
    ultimately show ?thesis by blast
  next
    case (Push p)
    then have lb: "loop_body rt u c w = (Push p, ?w)"
      using s1 by (metis prod.collapse)
    obtain qs2 where
      "for_chatIds rt u cs (acc @ [p]) ?w =
         (Inr ((acc @ [p]) @ assembled rt u ?w cs), ?w\<lparr>requests := requests ?w @ qs2\<rparr>)"
      and r2: "list_all is_read qs2"
      using Cons.IH by blast
    then have "for_chatIds rt u (c # cs) acc w =
        (Inr (acc @ assembled rt u w (c # cs)), w\<lparr>requests := requests w @ (qs1 @ qs2)\<rparr>)"
      using lb same split Push by (simp add: pushed_def)
    moreover have "list_all is_read (qs1 @ qs2)"
      using r1 r2 by simp
    ultimately show ?thesis by blast
  next
    case (Throw e)
    then show ?thesis using loop_body_no_throw by blast
  qed
qed

lemma try_block_signed_in:
  assumes s: "auth_session w = Some s"
    and ok: "\<not> failing w (participations_query (uid (user s)))"
  shows "\<exists>qs. try_block rt w =
           (None,
            w\<lparr>currentUser := Some (user s),
              requests := requests w @ participations_query (uid (user s)) # qs,
              chats := array_sort (compare_previews rt)
                 (assembled rt (user s) w (map participant_chat_id (memberships w (uid (user s))))),
              loading := (if memberships w (uid (user s)) = [] then False else loading w)\<rparr>)
         \<and> list_all is_read qs"
proof (cases "memberships w (uid (user s)) = []")
  case True
  then have "try_block rt w =
           (None,
            w\<lparr>currentUser := Some (user s),
              requests := requests w @ participations_query (uid (user s)) # [],
              chats := array_sort (compare_previews rt)
                 (assembled rt (user s) w (map participant_chat_id (memberships w (uid (user s))))),
              loading := (if memberships w (uid (user s)) = [] then False else loading w)\<rparr>)"
    using s ok
    by (simp add: try_block_def Let_def answer_rows_def rows_participations memberships_def
        issue_def assembled_def)
  moreover have "list_all is_read []" by simp
  ultimately show ?thesis by blast
next
  case False
  let ?u = "user s"
  let ?q = "participations_query (uid ?u)"
  let ?w2 = "issue ?q (w\<lparr>currentUser := Some ?u\<rparr>)"
  let ?cs = "map participant_chat_id (memberships w (uid ?u))"
  obtain qs where f: "for_chatIds rt ?u ?cs [] ?w2 =
      (Inr ([] @ assembled rt ?u ?w2 ?cs), ?w2\<lparr>requests := requests ?w2 @ qs\<rparr>)"
    and r: "list_all is_read qs"
    using for_chatIds_result by blast
  have same: "assembled rt ?u ?w2 ?cs = assembled rt ?u w ?cs"
    by (rule assembled_backend) (simp_all add: issue_def)
  have "try_block rt w =
           (None,
            w\<lparr>currentUser := Some (user s),
              requests := requests w @ participations_query (uid (user s)) # qs,
              chats := array_sort (compare_previews rt)
                 (assembled rt (user s) w (map participant_chat_id (memberships w (uid (user s))))),
              loading := (if memberships w (uid (user s)) = [] then False else loading w)\<rparr>)"
    using s ok False f same
    by (simp add: try_block_def Let_def answer_rows_def rows_participations memberships_def
        issue_def)
  then show ?thesis using r by blast
qed

lemma try_block_membership_fails:
  assumes s: "auth_session w = Some s"
    and bad: "failing w (participations_query (uid (user s)))"
  shows "try_block rt w =
           (Some (Thrown_error FetchError),
            w\<lparr>currentUser := Some (user s),
              requests := requests w @ [participations_query (uid (user s))]\<rparr>)"
  using s bad by (simp add: try_block_def Let_def answer_rows_def issue_def failed_def)


subsection \<open>The three ways \<open>fetchChats\<close> ends\<close>

text \<open>
  No session; a session and a failing membership request; a session and a membership
  request that is answered. In each case the final state is the initial one with a few
  fields updated.
\<close>

lemma fetchChats_no_session:
  assumes "auth_session w = None"
  shows "fetchChats rt w = w\<lparr>chats := [], loading := False\<rparr>"
  using assms by (simp add: fetchChats_def try_block_def)

lemma fetchChats_membership_fails:
  assumes s: "auth_session w = Some s"
    and bad: "failing w (participations_query (uid (user s)))"
  shows "fetchChats rt w =
           w\<lparr>currentUser := Some (user s),
             requests := requests w @ [participations_query (uid (user s))],
             console := console w @ [Thrown_error FetchError],
             toasts := toasts w @ [toast_text],
             loading := False\<rparr>"
  by (simp add: fetchChats_def try_block_membership_fails [OF s bad] catch_block_def)

lemma fetchChats_signed_in:
  assumes s: "auth_session w = Some s"
    and ok: "\<not> failing w (participations_query (uid (user s)))"
  shows "\<exists>qs. fetchChats rt w =
           w\<lparr>currentUser := Some (user s),
             requests := requests w @ participations_query (uid (user s)) # qs,
             chats := array_sort (compare_previews rt)
                (assembled rt (user s) w (map participant_chat_id (memberships w (uid (user s))))),
             loading := False\<rparr>
         \<and> list_all is_read qs"
proof -
  obtain qs where t: "try_block rt w =
           (None,
            w\<lparr>currentUser := Some (user s),
              requests := requests w @ participations_query (uid (user s)) # qs,
              chats := array_sort (compare_previews rt)
                 (assembled rt (user s) w (map participant_chat_id (memberships w (uid (user s))))),
              loading := (if memberships w (uid (user s)) = [] then False else loading w)\<rparr>)"
    and r: "list_all is_read qs"
    using try_block_signed_in [OF s ok] by blast
  have "fetchChats rt w =
           w\<lparr>currentUser := Some (user s),
             requests := requests w @ participations_query (uid (user s)) # qs,
             chats := array_sort (compare_previews rt)
                (assembled rt (user s) w (map participant_chat_id (memberships w (uid (user s))))),
             loading := False\<rparr>"
    by (simp add: fetchChats_def t)
  then show ?thesis using r by blast
qed

lemma chats_fetchChats_signed_in:
  assumes s: "auth_session w = Some s"
    and ok: "\<not> failing w (participations_query (uid (user s)))"
  shows "chats (fetchChats rt w) =
           array_sort (compare_previews rt)
             (assembled rt (user s) w (map participant_chat_id (memberships w (uid (user s)))))"
proof -
  obtain qs where "fetchChats rt w =
           w\<lparr>currentUser := Some (user s),
             requests := requests w @ participations_query (uid (user s)) # qs,
             chats := array_sort (compare_previews rt)
                (assembled rt (user s) w (map participant_chat_id (memberships w (uid (user s))))),
             loading := False\<rparr>"
    using fetchChats_signed_in [OF s ok] by blast
  then show ?thesis by simp
qed

lemma fetchChats_backend:
  "auth_session (fetchChats rt w) = auth_session w \<and>
   chat_participants (fetchChats rt w) = chat_participants w \<and>
   profiles (fetchChats rt w) = profiles w \<and>
   messages (fetchChats rt w) = messages w \<and>
   failing (fetchChats rt w) = failing w"
proof (cases "auth_session w")
  case None
  then show ?thesis by (simp add: fetchChats_no_session)
next
  case (Some s)
  show ?thesis
  proof (cases "failing w (participations_query (uid (user s)))")
    case True
    then show ?thesis by (simp add: fetchChats_membership_fails [OF Some True])
  next
    case False
    obtain qs where "fetchChats rt w =
           w\<lparr>currentUser := Some (user s),
             requests := requests w @ participations_query (uid (user s)) # qs,
             chats := array_sort (compare_previews rt)
                (assembled rt (user s) w (map participant_chat_id (memberships w (uid (user s))))),
             loading := False\<rparr>"
      using fetchChats_signed_in [OF Some False] by blast
    then show ?thesis by simp
  qed
qed

subsection \<open>The sort and the loop keep what was pushed\<close>

lemma length_sort_insert: "length (sort_insert f x ys) = Suc (length ys)"
  by (induction ys) simp_all

lemma length_array_sort: "length (array_sort f xs) = length xs"
  by (induction xs) (simp_all add: length_sort_insert)

lemma set_sort_insert: "set (sort_insert f x ys) = insert x (set ys)"
  by (induction ys) auto

lemma set_array_sort: "set (array_sort f xs) = set xs"
  by (induction xs) (simp_all add: set_sort_insert)

lemma length_pushed:
  "length (pushed rt u w c) = (if lookup_fails w (uid u) c then 0 else 1)"
  unfolding pushed_def loop_body_def Let_def lookup_fails_def others_def profiles_of_def
  by (auto simp: answer_single_def failed_def issue_def rows_other_participant rows_profile
      split: list.splits option.splits)

lemma length_assembled:
  "length (assembled rt u w cs) = length (filter (\<lambda>c. \<not> lookup_fails w (uid u) c) cs)"
  by (induction cs) (simp_all add: assembled_def length_pushed)

lemma length_filter_complement:
  "length (filter (\<lambda>c. \<not> P c) cs) = length cs - length (filter P cs)"
  using sum_length_filter_compl [of P cs] by arith

lemma fetchChats_signed_in_silent:
  assumes s: "auth_session w = Some s"
    and ok: "\<not> failing w (participations_query (uid (user s)))"
  shows "toasts (fetchChats rt w) = toasts w \<and> console (fetchChats rt w) = console w"
proof -
  obtain qs where "fetchChats rt w =
           w\<lparr>currentUser := Some (user s),
             requests := requests w @ participations_query (uid (user s)) # qs,
             chats := array_sort (compare_previews rt)
                (assembled rt (user s) w (map participant_chat_id (memberships w (uid (user s))))),
             loading := False\<rparr>"
    using fetchChats_signed_in [OF s ok] by blast
  then show ?thesis by simp
qed

subsection \<open>What one chat contributes\<close>

lemma loop_body_crowded:
  assumes "2 \<le> length (others w (uid u) c)"
  shows "fst (loop_body rt u c w) = Continue"
proof -
  have "\<forall>r. rows_of participant_col (chat_participants w) (other_participant_query c (uid u)) \<noteq> [r]"
    using assms by (auto simp: rows_other_participant others_def)
  then show ?thesis
    unfolding loop_body_def Let_def
    by (auto simp: answer_single_def failed_def split: list.splits)
qed

lemma assembled_without:
  assumes "pushed rt u w c = []"
  shows "assembled rt u w cs = assembled rt u w (filter (\<lambda>c'. c' \<noteq> c) cs)"
  using assms by (induction cs) (simp_all add: assembled_def)

lemma set_assembled: "set (assembled rt u w cs) = (\<Union>c\<in>set cs. set (pushed rt u w c))"
  by (simp add: assembled_def)

lemma pushed_member: "p \<in> set (pushed rt u w c) \<Longrightarrow> pushed rt u w c = [p]"
  by (auto simp: pushed_def split: outcome.splits)

lemma unread_pushed:
  assumes "pushed rt u w c = [p]"
  shows "unread p =
           (if failing w (unread_query c (uid u)) then 0
            else int (length (unread_from_others w (uid u) c)))"
  using assms
  unfolding pushed_def loop_body_def Let_def
  by (auto simp: answer_count_def failed_def issue_def rows_unread unread_from_others_def
      split: option.splits if_splits)

lemma pushed_resolved:
  assumes r: "others w (uid u) c = [r]"
    and ok1: "\<not> failing w (other_participant_query c (uid u))"
    and pr: "profiles_of w (participant_user_id r) = [pr]"
    and ok2: "\<not> failing w (profile_query (participant_user_id r))"
  shows "\<exists>p. pushed rt u w c = [p]
           \<and> id' p = participant_user_id r
           \<and> username p = or_else (profile_username pr) placeholder
           \<and> (messages_of w c = [] \<longrightarrow> last_message p = [] \<and> last_time p = [])"
proof -
  have a1: "answer_single participant_col (chat_participants w)
        (failing w (other_participant_query c (uid u))) (other_participant_query c (uid u))
      = \<lparr>data = Some r, error = None, count = None\<rparr>"
    using r ok1 by (simp add: answer_single_def rows_other_participant others_def)
  have a2: "answer_single profile_col (profiles w)
        (failing w (profile_query (participant_user_id r))) (profile_query (participant_user_id r))
      = \<lparr>data = Some pr, error = None, count = None\<rparr>"
    using pr ok2 by (simp add: answer_single_def rows_profile profiles_of_def)
  have a3: "messages_of w c = [] \<Longrightarrow>
      data (answer_single message_col (messages w) (failing w (last_message_query c))
        (last_message_query c)) = None"
    by (simp add: answer_single_def rows_last_message messages_of_def failed_def)
  show ?thesis
    unfolding pushed_def loop_body_def Let_def
    using a3 by (simp add: a1 a2 issue_def)
qed

subsection \<open>The example backend, evaluated\<close>

lemma ex_run_any_parse:
  "chats (fetchChats \<lparr>toLocaleTimeString = clock_utc, getTime = parse\<rparr> ex_world) =
     [\<lparr>id' = ''bob'', username = ''Bob'', avatar_url = None, last_message = ''hi'',
       last_time = ''10:00'', unread = 1\<rparr>,
      \<lparr>id' = ''carol'', username = ''Carol'', avatar_url = None, last_message = ''there?'',
       last_time = ''10:00'', unread = 2\<rparr>,
      \<lparr>id' = ''frank'', username = placeholder, avatar_url = None, last_message = [],
       last_time = [], unread = 0\<rparr>]"
  by (simp add: fetchChats_def try_block_def loop_body_def ex_world_def mounted_def alice_def
      ex_participants_def ex_profiles_def ex_messages_def clock_utc_def two_digits_def
      answer_rows_def answer_single_def answer_count_def rows_of_def limit_rows_def order_rows_def
      order_key_def participant_col_def profile_col_def message_col_def
      participations_query_def other_participant_query_def profile_query_def last_message_query_def
      unread_query_def select_def select_head_count_def eq_def neq_def order_by_def limit_to_def single_def
      issue_def failed_def compare_previews_def SortCompare_def or_else_def Let_def
      split: option.splits)

lemma ex_run:
  "chats (fetchChats browser ex_world) =
     [\<lparr>id' = ''bob'', username = ''Bob'', avatar_url = None, last_message = ''hi'',
       last_time = ''10:00'', unread = 1\<rparr>,
      \<lparr>id' = ''carol'', username = ''Carol'', avatar_url = None, last_message = ''there?'',
       last_time = ''10:00'', unread = 2\<rparr>,
      \<lparr>id' = ''frank'', username = placeholder, avatar_url = None, last_message = [],
       last_time = [], unread = 0\<rparr>]"
  unfolding browser_def by (rule ex_run_any_parse)

lemma ex_memberships:
  "map participant_chat_id (memberships ex_world ''alice'') = [''c1'', ''c2'', ''c3'', ''c4'']"
  by (simp add: memberships_def ex_world_def mounted_def ex_participants_def)

lemma ex_lookup_fails:
  "\<not> lookup_fails ex_world ''alice'' ''c1''" "\<not> lookup_fails ex_world ''alice'' ''c2''"
  "lookup_fails ex_world ''alice'' ''c3''" "\<not> lookup_fails ex_world ''alice'' ''c4''"
  by (simp_all add: lookup_fails_def others_def profiles_of_def ex_world_def mounted_def
      ex_participants_def ex_profiles_def)

subsection \<open>The end of a load cycle\<close>

text \<open>
  C10. On every path of \<open>fetchChats\<close> (no session, no membership, previews assembled,
  an error thrown and caught) the \<open>loading\<close> flag is false when the function ends.
\<close>

theorem loading_false_after_fetchChats: "loading (fetchChats rt w) = False"
  by (simp add: fetchChats_def split: prod.splits option.splits)

text \<open>
  C2. Without a session \<open>fetchChats\<close> sets the list of chats to the empty list, issues
  no request to any table, and reports nothing: no toast and nothing on the console.
\<close>

theorem no_session_empty_list:
  assumes "auth_session w = None"
  shows "chats (fetchChats rt w) = [] \<and> requests (fetchChats rt w) = requests w
         \<and> toasts (fetchChats rt w) = toasts w \<and> console (fetchChats rt w) = console w"
  using assms by (simp add: fetchChats_def try_block_def)

theorem no_session_empty_list_witness:
  "auth_session ex_signed_out = None
   \<and> chats (fetchChats browser ex_signed_out) = []
   \<and> requests (fetchChats browser ex_signed_out) = []
   \<and> toasts (fetchChats browser ex_signed_out) = []
   \<and> console (fetchChats browser ex_signed_out) = []"
proof -
  have h: "auth_session ex_signed_out = None"
    by (simp add: ex_signed_out_def mounted_def)
  have r: "requests ex_signed_out = [] \<and> toasts ex_signed_out = [] \<and> console ex_signed_out = []"
    by (simp add: ex_signed_out_def mounted_def)
  show ?thesis
    using h r no_session_empty_list [OF h, of browser] by simp
qed

subsection \<open>Failure of the membership request\<close>

text \<open>
  C4. When the request for the user's memberships fails, \<open>fetchChats\<close> throws and
  catches the error: one toast with the text of line 112 is shown, the error is written
  to the console, the list of chats stays as it was when the component was mounted
  (empty), no preview is stored, and the function ends with \<open>loading\<close> false.
\<close>

theorem membership_failure_toast:
  assumes s: "auth_session w = Some s"
    and bad: "failing w (participations_query (uid (user s)))"
    and init: "chats w = []"
  shows "chats (fetchChats rt w) = []
         \<and> toasts (fetchChats rt w) = toasts w @ [toast_text]
         \<and> console (fetchChats rt w) = console w @ [Thrown_error FetchError]
         \<and> loading (fetchChats rt w) = False"
  using init by (simp add: fetchChats_membership_fails [OF s bad])

theorem membership_failure_toast_witness:
  "auth_session ex_offline = Some alice
   \<and> failing ex_offline (participations_query (uid (user alice)))
   \<and> chats ex_offline = []
   \<and> chats (fetchChats browser ex_offline) = []
   \<and> toasts (fetchChats browser ex_offline) = [toast_text]
   \<and> console (fetchChats browser ex_offline) = [Thrown_error FetchError]
   \<and> loading (fetchChats browser ex_offline) = False"
proof -
  have s: "auth_session ex_offline = Some alice"
    by (simp add: ex_offline_def mounted_def)
  have bad: "failing ex_offline (participations_query (uid (user alice)))"
    by (simp add: ex_offline_def mounted_def participations_query_def eq_def select_def)
  have init: "chats ex_offline = []"
    by (simp add: ex_offline_def mounted_def)
  have "toasts ex_offline = [] \<and> console ex_offline = []"
    by (simp add: ex_offline_def mounted_def)
  then show ?thesis
    using s bad init membership_failure_toast [OF s bad init, of browser] by simp
qed

subsection \<open>Effects on the backend\<close>

text \<open>
  C7. \<open>fetchChats\<close> leaves the three tables as they were, and every request it adds to
  the log is a GET or a HEAD: it issues no insert, update, upsert or delete, so no
  message's \<open>read\<close> flag changes.
\<close>

theorem fetchChats_only_reads:
  "chat_participants (fetchChats rt w) = chat_participants w
   \<and> profiles (fetchChats rt w) = profiles w
   \<and> messages (fetchChats rt w) = messages w
   \<and> (\<exists>qs. requests (fetchChats rt w) = requests w @ qs \<and> list_all is_read qs)"
proof -
  have "\<exists>qs. requests (fetchChats rt w) = requests w @ qs \<and> list_all is_read qs"
  proof (cases "auth_session w")
    case None
    then have "requests (fetchChats rt w) = requests w @ []"
      by (simp add: fetchChats_no_session)
    moreover have "list_all is_read []" by simp
    ultimately show ?thesis by blast
  next
    case (Some s)
    show ?thesis
    proof (cases "failing w (participations_query (uid (user s)))")
      case True
      then have "requests (fetchChats rt w) = requests w @ [participations_query (uid (user s))]"
        by (simp add: fetchChats_membership_fails [OF Some True])
      moreover have "list_all is_read [participations_query (uid (user s))]"
        by (simp add: is_read_queries)
      ultimately show ?thesis by blast
    next
      case False
      obtain qs where f: "fetchChats rt w =
           w\<lparr>currentUser := Some (user s),
             requests := requests w @ participations_query (uid (user s)) # qs,
             chats := array_sort (compare_previews rt)
                (assembled rt (user s) w (map participant_chat_id (memberships w (uid (user s))))),
             loading := False\<rparr>"
        and r: "list_all is_read qs"
        using fetchChats_signed_in [OF Some False] by blast
      have "requests (fetchChats rt w) = requests w @ (participations_query (uid (user s)) # qs)"
        by (simp add: f)
      moreover have "list_all is_read (participations_query (uid (user s)) # qs)"
        using r by (simp add: is_read_queries)
      ultimately show ?thesis by blast
    qed
  qed
  then show ?thesis by (simp add: fetchChats_backend)
qed

theorem fetchChats_only_reads_witness:
  "messages (fetchChats browser ex_world) = ex_messages
   \<and> (\<exists>qs. requests (fetchChats browser ex_world) = qs \<and> list_all is_read qs)"
  using fetchChats_only_reads [of browser ex_world]
  by (simp add: ex_world_def mounted_def)

subsection \<open>Idempotence\<close>

text \<open>
  C8. Running \<open>fetchChats\<close> a second time on the state the first run left (same
  session, same tables, same failing requests) stores the same list of chats, in the same
  order.
\<close>

theorem fetchChats_idempotent:
  "chats (fetchChats rt (fetchChats rt w)) = chats (fetchChats rt w)"
proof -
  let ?w = "fetchChats rt w"
  have b: "auth_session ?w = auth_session w" "chat_participants ?w = chat_participants w"
    "profiles ?w = profiles w" "messages ?w = messages w" "failing ?w = failing w"
    by (simp_all add: fetchChats_backend)
  show ?thesis
  proof (cases "auth_session w")
    case None
    then have "auth_session ?w = None" using b by simp
    then have "chats (fetchChats rt ?w) = []" by (simp add: fetchChats_no_session)
    moreover have "chats ?w = []" using None by (simp add: fetchChats_no_session)
    ultimately show ?thesis by simp
  next
    case (Some s)
    then have s': "auth_session ?w = Some s" using b by simp
    show ?thesis
    proof (cases "failing w (participations_query (uid (user s)))")
      case True
      then have "failing ?w (participations_query (uid (user s)))" using b by simp
      then show ?thesis by (simp add: fetchChats_membership_fails [OF s'])
    next
      case False
      then have ok': "\<not> failing ?w (participations_query (uid (user s)))" using b by simp
      have m: "memberships ?w (uid (user s)) = memberships w (uid (user s))"
        using b by (simp add: memberships_def)
      have "assembled rt (user s) ?w (map participant_chat_id (memberships w (uid (user s))))
          = assembled rt (user s) w (map participant_chat_id (memberships w (uid (user s))))"
        by (rule assembled_backend) (simp_all add: b)
      then show ?thesis
        by (simp add: chats_fetchChats_signed_in [OF s' ok'] chats_fetchChats_signed_in [OF Some False] m)
    qed
  qed
qed

theorem fetchChats_idempotent_witness:
  "chats (fetchChats browser (fetchChats browser ex_world)) = chats (fetchChats browser ex_world)"
  using fetchChats_idempotent [of browser ex_world] by simp

subsection \<open>One preview per chat whose lookups succeed\<close>

text \<open>
  C3. With a session and an answered membership request, the list stored has one preview
  for each membership whose counterpart and profile lookups both succeed: of \<open>N\<close>
  memberships of which \<open>M\<close> fail a lookup, \<open>N - M\<close> previews. The chats that fail are
  skipped without a toast or a console message, and the chats after them are still
  processed. Started from the empty list of the mounted component, the list stored is
  never longer than the memberships, also when the membership request fails.
\<close>

theorem one_preview_per_resolved_chat:
  assumes s: "auth_session w = Some s"
  shows "(\<not> failing w (participations_query (uid (user s))) \<longrightarrow>
            length (chats (fetchChats rt w)) =
              length (memberships w (uid (user s)))
              - length (filter (lookup_fails w (uid (user s)))
                  (map participant_chat_id (memberships w (uid (user s)))))
            \<and> toasts (fetchChats rt w) = toasts w
            \<and> console (fetchChats rt w) = console w)
         \<and> (chats w = [] \<longrightarrow>
              length (chats (fetchChats rt w)) \<le> length (memberships w (uid (user s))))"
proof (cases "failing w (participations_query (uid (user s)))")
  case True
  then show ?thesis by (simp add: fetchChats_membership_fails [OF s True])
next
  case False
  let ?cs = "map participant_chat_id (memberships w (uid (user s)))"
  have "length (chats (fetchChats rt w)) =
      length (filter (\<lambda>c. \<not> lookup_fails w (uid (user s)) c) ?cs)"
    by (simp add: chats_fetchChats_signed_in [OF s False] length_array_sort length_assembled)
  also have "\<dots> = length ?cs - length (filter (lookup_fails w (uid (user s))) ?cs)"
    by (rule length_filter_complement)
  finally have eq: "length (chats (fetchChats rt w)) =
      length (memberships w (uid (user s))) - length (filter (lookup_fails w (uid (user s))) ?cs)"
    by simp
  then have "length (chats (fetchChats rt w)) \<le> length (memberships w (uid (user s)))"
    by arith
  then show ?thesis
    using eq fetchChats_signed_in_silent [OF s False] by simp
qed

theorem one_preview_per_resolved_chat_witness:
  "auth_session ex_world = Some alice
   \<and> \<not> failing ex_world (participations_query (uid (user alice)))
   \<and> chats ex_world = []
   \<and> length (memberships ex_world ''alice'') = 4
   \<and> length (filter (lookup_fails ex_world ''alice'')
        (map participant_chat_id (memberships ex_world ''alice''))) = 1
   \<and> length (chats (fetchChats browser ex_world)) = 3
   \<and> toasts (fetchChats browser ex_world) = []
   \<and> console (fetchChats browser ex_world) = []"
proof -
  have s: "auth_session ex_world = Some alice"
    by (simp add: ex_world_def mounted_def)
  have ok: "\<not> failing ex_world (participations_query (uid (user alice)))"
    by (simp add: ex_world_def mounted_def)
  have n: "length (memberships ex_world ''alice'') = 4"
    by (simp add: memberships_def ex_world_def mounted_def ex_participants_def)
  have m: "length (filter (lookup_fails ex_world ''alice'')
        (map participant_chat_id (memberships ex_world ''alice''))) = 1"
    by (simp add: ex_memberships ex_lookup_fails)
  have e: "chats ex_world = [] \<and> toasts ex_world = [] \<and> console ex_world = []"
    by (simp add: ex_world_def mounted_def)
  show ?thesis
    using s ok n m e one_preview_per_resolved_chat [OF s, of browser]
    by (simp add: alice_def)
qed

subsection \<open>Chats with more than one other participant\<close>

text \<open>
  C9. A chat in which at least two rows of \<open>chat_participants\<close> belong to users other
  than the current one (a chat of three or more participants) makes the \<open>.single()\<close> of
  the counterpart lookup fail, so the loop takes the \<open>continue\<close> of line 62: the list
  stored is the one assembled from the user's other chats, and neither a toast nor a
  console message appears.
\<close>

theorem crowded_chat_skipped:
  assumes s: "auth_session w = Some s"
    and ok: "\<not> failing w (participations_query (uid (user s)))"
    and crowded: "2 \<le> length (others w (uid (user s)) c)"
  shows "fst (loop_body rt (user s) c w) = Continue
         \<and> chats (fetchChats rt w) =
             array_sort (compare_previews rt)
               (assembled rt (user s) w
                  (filter (\<lambda>c'. c' \<noteq> c) (map participant_chat_id (memberships w (uid (user s))))))
         \<and> toasts (fetchChats rt w) = toasts w
         \<and> console (fetchChats rt w) = console w"
proof -
  have k: "fst (loop_body rt (user s) c w) = Continue"
    by (rule loop_body_crowded [OF crowded])
  then have "pushed rt (user s) w c = []"
    by (simp add: pushed_def)
  then have "assembled rt (user s) w (map participant_chat_id (memberships w (uid (user s)))) =
      assembled rt (user s) w
        (filter (\<lambda>c'. c' \<noteq> c) (map participant_chat_id (memberships w (uid (user s)))))"
    by (rule assembled_without)
  then show ?thesis
    using k fetchChats_signed_in_silent [OF s ok]
    by (simp add: chats_fetchChats_signed_in [OF s ok])
qed

theorem crowded_chat_skipped_witness:
  "auth_session ex_world = Some alice
   \<and> \<not> failing ex_world (participations_query (uid (user alice)))
   \<and> ''c3'' \<in> set (map participant_chat_id (memberships ex_world ''alice''))
   \<and> map participant_user_id (others ex_world ''alice'' ''c3'') = [''dave'', ''erin'']
   \<and> fst (loop_body browser (user alice) ''c3'' ex_world) = Continue
   \<and> map id' (chats (fetchChats browser ex_world)) = [''bob'', ''carol'', ''frank'']
   \<and> toasts (fetchChats browser ex_world) = []
   \<and> console (fetchChats browser ex_world) = []"
proof -
  have s: "auth_session ex_world = Some alice"
    by (simp add: ex_world_def mounted_def)
  have ok: "\<not> failing ex_world (participations_query (uid (user alice)))"
    by (simp add: ex_world_def mounted_def)
  have o: "map participant_user_id (others ex_world ''alice'' ''c3'') = [''dave'', ''erin'']"
    by (simp add: others_def ex_world_def mounted_def ex_participants_def)
  have crowded: "2 \<le> length (others ex_world (uid (user alice)) ''c3'')"
    by (simp add: others_def ex_world_def mounted_def ex_participants_def alice_def)
  have e: "toasts ex_world = [] \<and> console ex_world = []"
    by (simp add: ex_world_def mounted_def)
  have ids: "map id' (chats (fetchChats browser ex_world)) = [''bob'', ''carol'', ''frank'']"
    by (simp add: ex_run)
  have m: "''c3'' \<in> set (map participant_chat_id (memberships ex_world ''alice''))"
    by (simp add: ex_memberships)
  show ?thesis
    using s ok o e ids m crowded_chat_skipped [OF s ok crowded, of browser]
    by simp
qed

subsection \<open>The unread count\<close>

text \<open>
  C5. Every preview stored by \<open>fetchChats\<close> (started from the empty list of the mounted
  component) was assembled for one of the user's chats, and its \<open>unread\<close> field is the
  number of messages of that chat whose \<open>read\<close> flag is false and whose sender is not the
  current user; it is 0 when the count request fails, 0 when no such message exists, and
  never negative.
\<close>

theorem unread_counts_unread_from_others:
  assumes init: "chats w = []"
    and p: "p \<in> set (chats (fetchChats rt w))"
  shows "\<exists>s c. auth_session w = Some s
           \<and> c \<in> set (map participant_chat_id (memberships w (uid (user s))))
           \<and> pushed rt (user s) w c = [p]
           \<and> unread p =
               (if failing w (unread_query c (uid (user s))) then 0
                else int (length (unread_from_others w (uid (user s)) c)))
           \<and> 0 \<le> unread p"
proof (cases "auth_session w")
  case None
  then show ?thesis using p by (simp add: fetchChats_no_session)
next
  case (Some s)
  show ?thesis
  proof (cases "failing w (participations_query (uid (user s)))")
    case True
    then show ?thesis using p init by (simp add: fetchChats_membership_fails [OF Some True])
  next
    case False
    let ?cs = "map participant_chat_id (memberships w (uid (user s)))"
    have "p \<in> set (assembled rt (user s) w ?cs)"
      using p by (simp add: chats_fetchChats_signed_in [OF Some False] set_array_sort)
    then obtain c where c: "c \<in> set ?cs" and "p \<in> set (pushed rt (user s) w c)"
      unfolding set_assembled by blast
    then have pc: "pushed rt (user s) w c = [p]"
      by (simp add: pushed_member)
    have u: "unread p =
               (if failing w (unread_query c (uid (user s))) then 0
                else int (length (unread_from_others w (uid (user s)) c)))"
      by (rule unread_pushed [OF pc])
    then have "0 \<le> unread p" by simp
    then show ?thesis using Some c pc u by blast
  qed
qed

theorem unread_counts_unread_from_others_witness:
  "chats ex_world = []
   \<and> \<lparr>id' = ''carol'', username = ''Carol'', avatar_url = None, last_message = ''there?'',
       last_time = ''10:00'', unread = 2\<rparr> \<in> set (chats (fetchChats browser ex_world))
   \<and> (\<exists>s c. auth_session ex_world = Some s
           \<and> c \<in> set (map participant_chat_id (memberships ex_world (uid (user s))))
           \<and> pushed browser (user s) ex_world c =
               [\<lparr>id' = ''carol'', username = ''Carol'', avatar_url = None,
                 last_message = ''there?'', last_time = ''10:00'', unread = 2\<rparr>]
           \<and> (2::int) =
               (if failing ex_world (unread_query c (uid (user s))) then 0
                else int (length (unread_from_others ex_world (uid (user s)) c))))"
proof -
  let ?p = "\<lparr>id' = ''carol'', username = ''Carol'', avatar_url = None, last_message = ''there?'',
       last_time = ''10:00'', unread = 2\<rparr>"
  have init: "chats ex_world = []"
    by (simp add: ex_world_def mounted_def)
  have p: "?p \<in> set (chats (fetchChats browser ex_world))"
    by (simp add: ex_run)
  show ?thesis
    using init p unread_counts_unread_from_others [OF init p] by simp
qed

subsection \<open>Defaults of a preview\<close>

text \<open>
  C6. For a chat of the user whose counterpart and profile lookups succeed, a preview is
  stored. If the chat has no message, its \<open>last_message\<close> and \<open>last_time\<close> are the
  empty string; if the counterpart's \<open>username\<close> is NULL, its \<open>username\<close> is the
  placeholder of line 92.
\<close>

theorem preview_defaults:
  assumes s: "auth_session w = Some s"
    and ok: "\<not> failing w (participations_query (uid (user s)))"
    and c: "c \<in> set (map participant_chat_id (memberships w (uid (user s))))"
    and r: "others w (uid (user s)) c = [r]"
    and ok1: "\<not> failing w (other_participant_query c (uid (user s)))"
    and pr: "profiles_of w (participant_user_id r) = [pr]"
    and ok2: "\<not> failing w (profile_query (participant_user_id r))"
  shows "\<exists>p. p \<in> set (chats (fetchChats rt w))
           \<and> pushed rt (user s) w c = [p]
           \<and> id' p = participant_user_id r
           \<and> (messages_of w c = [] \<longrightarrow> last_message p = [] \<and> last_time p = [])
           \<and> (profile_username pr = None \<longrightarrow> username p = placeholder)"
proof -
  obtain p where p: "pushed rt (user s) w c = [p]"
    and i: "id' p = participant_user_id r"
    and n: "username p = or_else (profile_username pr) placeholder"
    and m: "messages_of w c = [] \<longrightarrow> last_message p = [] \<and> last_time p = []"
    using pushed_resolved [OF r ok1 pr ok2] by blast
  have "p \<in> set (assembled rt (user s) w (map participant_chat_id (memberships w (uid (user s)))))"
    unfolding set_assembled using c p by force
  then have "p \<in> set (chats (fetchChats rt w))"
    by (simp add: chats_fetchChats_signed_in [OF s ok] set_array_sort)
  moreover have "profile_username pr = None \<longrightarrow> username p = placeholder"
    using n by (simp add: or_else_def)
  ultimately have "p \<in> set (chats (fetchChats rt w))
           \<and> pushed rt (user s) w c = [p]
           \<and> id' p = participant_user_id r
           \<and> (messages_of w c = [] \<longrightarrow> last_message p = [] \<and> last_time p = [])
           \<and> (profile_username pr = None \<longrightarrow> username p = placeholder)"
    using p i m by simp
  then show ?thesis by (rule exI)
qed

theorem preview_defaults_witness:
  "auth_session ex_world = Some alice
   \<and> \<not> failing ex_world (participations_query (uid (user alice)))
   \<and> ''c4'' \<in> set (map participant_chat_id (memberships ex_world (uid (user alice))))
   \<and> others ex_world (uid (user alice)) ''c4'' =
       [\<lparr>participant_chat_id = ''c4'', participant_user_id = ''frank''\<rparr>]
   \<and> profiles_of ex_world ''frank'' =
       [\<lparr>profile_id = ''frank'', profile_username = None, profile_avatar_url = None\<rparr>]
   \<and> messages_of ex_world ''c4'' = []
   \<and> (\<exists>p. p \<in> set (chats (fetchChats browser ex_world))
          \<and> id' p = ''frank'' \<and> last_message p = [] \<and> last_time p = []
          \<and> username p = placeholder)"
proof -
  let ?r = "\<lparr>participant_chat_id = ''c4'', participant_user_id = ''frank''\<rparr>"
  let ?pr = "\<lparr>profile_id = ''frank'', profile_username = None, profile_avatar_url = None\<rparr>"
  have s: "auth_session ex_world = Some alice"
    by (simp add: ex_world_def mounted_def)
  have ok: "\<not> failing ex_world (participations_query (uid (user alice)))"
    by (simp add: ex_world_def mounted_def)
  have c: "''c4'' \<in> set (map participant_chat_id (memberships ex_world (uid (user alice))))"
    by (simp add: ex_memberships alice_def)
  have r: "others ex_world (uid (user alice)) ''c4'' = [?r]"
    by (simp add: others_def ex_world_def mounted_def ex_participants_def alice_def)
  have ok1: "\<not> failing ex_world (other_participant_query ''c4'' (uid (user alice)))"
    by (simp add: ex_world_def mounted_def)
  have pr: "profiles_of ex_world (participant_user_id ?r) = [?pr]"
    by (simp add: profiles_of_def ex_world_def mounted_def ex_profiles_def)
  have ok2: "\<not> failing ex_world (profile_query (participant_user_id ?r))"
    by (simp add: ex_world_def mounted_def)
  have m: "messages_of ex_world ''c4'' = []"
    by (simp add: messages_of_def ex_world_def mounted_def ex_messages_def)
  obtain p where "p \<in> set (chats (fetchChats browser ex_world))
           \<and> pushed browser (user alice) ex_world ''c4'' = [p]
           \<and> id' p = participant_user_id ?r
           \<and> (messages_of ex_world ''c4'' = [] \<longrightarrow> last_message p = [] \<and> last_time p = [])
           \<and> (profile_username ?pr = None \<longrightarrow> username p = placeholder)"
    using preview_defaults [OF s ok c r ok1 pr ok2, of browser] by (rule exE)
  then have "p \<in> set (chats (fetchChats browser ex_world))
          \<and> id' p = ''frank'' \<and> last_message p = [] \<and> last_time p = []
          \<and> username p = placeholder"
    using m by simp
  then have "\<exists>p. p \<in> set (chats (fetchChats browser ex_world))
          \<and> id' p = ''frank'' \<and> last_message p = [] \<and> last_time p = []
          \<and> username p = placeholder"
    by (rule exI)
  then show ?thesis
    using s ok c r pr m by simp
qed

subsection \<open>The order of the list\<close>

text \<open>
  What the sort of lines 103 to 107 does in this model, whatever \<open>toLocaleTimeString\<close>
  and \<open>getTime\<close> are: the previews without a \<open>last_time\<close> end up last, in the order in
  which they were pushed. When \<open>getTime\<close> cannot parse the \<open>last_time\<close> strings (NaN),
  the previews with a \<open>last_time\<close> keep the order in which they were pushed as well, so
  the sort only moves the previews without a time to the end.
\<close>

lemma sort_insert_past:
  "list_all (\<lambda>y. SortCompare f y x < 0) ts \<Longrightarrow>
     sort_insert f x (ts @ es) = ts @ sort_insert f x es"
  by (induction ts) simp_all

lemma sort_insert_stop:
  "(case es of [] \<Rightarrow> True | y # _ \<Rightarrow> \<not> SortCompare f y x < 0) \<Longrightarrow>
     sort_insert f x (ts @ es) = sort_insert f x ts @ es"
  by (induction ts) (auto split: list.splits)

lemma list_all_sort_insert:
  "list_all P (sort_insert f x ys) = (P x \<and> list_all P ys)"
  by (induction ys) auto

lemma compare_timed_timeless:
  "last_time y \<noteq> [] \<Longrightarrow> last_time x = [] \<Longrightarrow> SortCompare (compare_previews rt) y x = - 1"
  by (simp add: SortCompare_def compare_previews_def)

lemma compare_timeless:
  "last_time y = [] \<Longrightarrow> SortCompare (compare_previews rt) y x = 1"
  by (simp add: SortCompare_def compare_previews_def)

lemma compare_unparsed:
  "getTime rt (last_time y) = None \<Longrightarrow> \<not> SortCompare (compare_previews rt) y x < 0 \<or> (last_time y \<noteq> [] \<and> last_time x = [])"
  by (simp add: SortCompare_def compare_previews_def split: option.splits)

lemma array_sort_timeless_last:
  "\<exists>ts. array_sort (compare_previews rt) xs = ts @ filter (\<lambda>p. last_time p = []) xs
        \<and> list_all (\<lambda>p. last_time p \<noteq> []) ts"
proof (induction xs)
  case Nil
  then show ?case by simp
next
  case (Cons x xs)
  let ?f = "compare_previews rt"
  let ?es = "filter (\<lambda>p. last_time p = []) xs"
  obtain ts where ih: "array_sort ?f xs = ts @ ?es" and ts: "list_all (\<lambda>p. last_time p \<noteq> []) ts"
    using Cons.IH by blast
  have stop: "case ?es of [] \<Rightarrow> True | y # _ \<Rightarrow> \<not> SortCompare ?f y x < 0"
  proof (cases ?es)
    case Nil
    then show ?thesis by simp
  next
    case (Cons y ys)
    then have "y \<in> set ?es" by simp
    then have "last_time y = []" by simp
    then show ?thesis using Cons by (simp add: compare_timeless)
  qed
  show ?case
  proof (cases "last_time x = []")
    case True
    have "list_all (\<lambda>y. SortCompare ?f y x < 0) ts"
      using ts True by (induction ts) (simp_all add: compare_timed_timeless)
    then have "sort_insert ?f x (ts @ ?es) = ts @ sort_insert ?f x ?es"
      by (rule sort_insert_past)
    also have "sort_insert ?f x ?es = x # ?es"
      using stop by (cases ?es) simp_all
    finally have "array_sort ?f (x # xs) = ts @ filter (\<lambda>p. last_time p = []) (x # xs)"
      using True ih by simp
    then show ?thesis using ts by blast
  next
    case False
    have "sort_insert ?f x (ts @ ?es) = sort_insert ?f x ts @ ?es"
      using stop by (rule sort_insert_stop)
    then have "array_sort ?f (x # xs) = sort_insert ?f x ts @ filter (\<lambda>p. last_time p = []) (x # xs)"
      using False ih by simp
    moreover have "list_all (\<lambda>p. last_time p \<noteq> []) (sort_insert ?f x ts)"
      using ts False by (simp add: list_all_sort_insert)
    ultimately show ?thesis by blast
  qed
qed

lemma sort_insert_front:
  "(case ys of [] \<Rightarrow> True | y # _ \<Rightarrow> \<not> SortCompare f y x < 0) \<Longrightarrow> sort_insert f x ys = x # ys"
  by (cases ys) simp_all

lemma array_sort_unparsed:
  assumes "list_all (\<lambda>p. getTime rt (last_time p) = None) xs"
  shows "array_sort (compare_previews rt) xs =
           filter (\<lambda>p. last_time p \<noteq> []) xs @ filter (\<lambda>p. last_time p = []) xs"
  using assms
proof (induction xs)
  case Nil
  then show ?case by simp
next
  case (Cons x xs)
  let ?f = "compare_previews rt"
  let ?ts = "filter (\<lambda>p. last_time p \<noteq> []) xs"
  let ?es = "filter (\<lambda>p. last_time p = []) xs"
  have ih: "array_sort ?f xs = ?ts @ ?es"
    using Cons by simp
  have none: "list_all (\<lambda>p. getTime rt (last_time p) = None) xs"
    using Cons.prems by simp
  show ?case
  proof (cases "last_time x = []")
    case True
    have "list_all (\<lambda>y. SortCompare ?f y x < 0) ?ts"
      using True by (induction xs) (simp_all add: compare_timed_timeless)
    then have "sort_insert ?f x (?ts @ ?es) = ?ts @ sort_insert ?f x ?es"
      by (rule sort_insert_past)
    also have "sort_insert ?f x ?es = x # ?es"
    proof (rule sort_insert_front, cases ?es)
      case Nil
      then show "case ?es of [] \<Rightarrow> True | y # _ \<Rightarrow> \<not> SortCompare ?f y x < 0" by simp
    next
      case (Cons y ys)
      then have "y \<in> set ?es" by simp
      then have "last_time y = []" by simp
      then show "case ?es of [] \<Rightarrow> True | y # _ \<Rightarrow> \<not> SortCompare ?f y x < 0"
        using Cons by (simp add: compare_timeless)
    qed
    finally show ?thesis using True ih by simp
  next
    case False
    have "sort_insert ?f x (?ts @ ?es) = x # ?ts @ ?es"
    proof (rule sort_insert_front, cases "?ts @ ?es")
      case Nil
      then show "case ?ts @ ?es of [] \<Rightarrow> True | y # _ \<Rightarrow> \<not> SortCompare ?f y x < 0" by simp
    next
      case (Cons y ys)
      then have "y \<in> set (?ts @ ?es)" by simp
      then have "y \<in> set xs" by auto
      then have "getTime rt (last_time y) = None"
        using none by (simp add: list_all_iff)
      then have "\<not> SortCompare ?f y x < 0"
        using compare_unparsed [of rt y x] False by blast
      then show "case ?ts @ ?es of [] \<Rightarrow> True | y # _ \<Rightarrow> \<not> SortCompare ?f y x < 0"
        using Cons by simp
    qed
    then show ?thesis using False ih by simp
  qed
qed

text \<open>
  C1. The claim is that the list is sorted by the time of the last message, newest first.
  The comparator works on \<open>last_time\<close>, which is the formatted clock time (hour and
  minute) of the last message and no longer holds its date. In the example Bob's last
  message is from the first day at 10:00 and Carol's from the next day at 10:00: every
  message of \<open>c2\<close> is newer than every message of \<open>c1\<close>, both previews carry \<open>10:00\<close>,
  and, whatever the engine makes of that string, Bob's chat stays before Carol's.
\<close>

theorem newer_chat_not_first:
  "list_all (\<lambda>m. list_all (\<lambda>m'. message_created_at m < message_created_at m')
       (messages_of ex_world ''c2'')) (messages_of ex_world ''c1'')
   \<and> map (\<lambda>m. clock_utc (message_created_at m)) (messages_of ex_world ''c1'') = [''09:00'', ''10:00'']
   \<and> map (\<lambda>m. clock_utc (message_created_at m)) (messages_of ex_world ''c2'') = [''09:59'', ''10:00'']
   \<and> map id' (chats (fetchChats \<lparr>toLocaleTimeString = clock_utc, getTime = parse\<rparr> ex_world))
       = [''bob'', ''carol'', ''frank'']"
proof -
  have "messages_of ex_world ''c1'' =
     [\<lparr>message_chat_id = ''c1'', message_sender_id = ''alice'', message_content = Some ''hello'',
       message_created_at = 32400000, message_read = False\<rparr>,
      \<lparr>message_chat_id = ''c1'', message_sender_id = ''bob'', message_content = Some ''hi'',
       message_created_at = 36000000, message_read = False\<rparr>]"
    by (simp add: messages_of_def ex_world_def mounted_def ex_messages_def)
  moreover have "messages_of ex_world ''c2'' =
     [\<lparr>message_chat_id = ''c2'', message_sender_id = ''carol'', message_content = Some ''yo'',
       message_created_at = 122340000, message_read = False\<rparr>,
      \<lparr>message_chat_id = ''c2'', message_sender_id = ''carol'', message_content = Some ''there?'',
       message_created_at = 122400000, message_read = False\<rparr>]"
    by (simp add: messages_of_def ex_world_def mounted_def ex_messages_def)
  ultimately show ?thesis
    by (simp add: ex_run_any_parse clock_utc_def two_digits_def)
qed

end
